theory Spec2Isabelle
  imports Complex_Main "HOL-Library.Word"
begin

unbundle bit_operations_syntax

text \<open>
  A model of \<open>microphone_transcription.py\<close>, the client that streams microphone
  audio to a speech-to-text service: the audio transformer, the device selector, the
  capture driver, the transport session and the result presenter, each method as a
  function of the client state and of the answers of the libraries it calls.
\<close>

section \<open>Python exceptions and results\<close>

text \<open>
  The exceptions that the modelled code, the interpreter or one of the libraries it calls
  can raise. A computation that may raise returns \<open>exn + 'a\<close>, with \<open>Inl\<close> for the
  exception.
\<close>

datatype exn =
    ValueError | ZeroDivisionError | OverflowError | RuntimeError
  | KeyError | TypeError | OSError | AttributeError

definition and_then :: "exn + 'a \<Rightarrow> ('a \<Rightarrow> exn + 'b) \<Rightarrow> exn + 'b" where
  "and_then m f = (case m of Inl e \<Rightarrow> Inl e | Inr x \<Rightarrow> f x)"

section \<open>Floating point: IEEE 754 binary64\<close>

text \<open>
  A Python \<open>float\<close> and a numpy \<open>float64\<close> are binary64 numbers. A finite one is
  the real number it denotes; the two infinities are separate values. No operation of the
  modelled code yields a NaN on the inputs it gets (there is no \<open>inf - inf\<close>,
  \<open>0 * inf\<close> or \<open>0 / 0\<close>), so NaN is left out.
\<close>

datatype f64 = Finite real | PosInf | NegInf

fun bit_length :: "nat \<Rightarrow> nat" where
  "bit_length n = (if n = 0 then 0 else Suc (bit_length (n div 2)))"

declare bit_length.simps [simp del]

definition pow2 :: "int \<Rightarrow> real" where
  "pow2 e = (if 0 \<le> e then 2 ^ nat e else 1 / 2 ^ nat (- e))"

text \<open>\<open>ilog2 q\<close> is the binary exponent of a positive real: \<open>2 ^ ilog2 q \<le> q < 2 ^ (ilog2 q + 1)\<close>.\<close>

definition ilog2 :: "real \<Rightarrow> int" where
  "ilog2 q = (if 1 \<le> q then int (bit_length (nat \<lfloor>q\<rfloor>)) - 1
              else - int (bit_length (nat (\<lceil>1 / q\<rceil> - 1))))"

definition round_half_even :: "real \<Rightarrow> int" where
  "round_half_even q =
     (let f = \<lfloor>q\<rfloor>; r = q - of_int f
      in if r < 1 / 2 then f else if 1 / 2 < r then f + 1 else if even f then f else f + 1)"

text \<open>
  Rounding of an exact result to binary64, round-to-nearest, ties to even: 53 significant
  bits, the exponent of the last place not below \<open>-1074\<close> (subnormal numbers), and
  infinity from \<open>2 ^ 1024\<close> on.
\<close>

definition round64 :: "real \<Rightarrow> f64" where
  "round64 q =
     (if q = 0 then Finite 0
      else let e = max (ilog2 \<bar>q\<bar> - 52) (- 1074);
               m = round_half_even (\<bar>q\<bar> / pow2 e);
               r = of_int m * pow2 e
           in if pow2 1024 \<le> r then (if 0 < q then PosInf else NegInf)
              else Finite (sgn q * r))"

text \<open>Python's \<open>a / b\<close> on two \<open>int\<close>s: the correctly rounded quotient.\<close>

definition py_truediv :: "int \<Rightarrow> int \<Rightarrow> exn + real" where
  "py_truediv a b =
     (if b = 0 then Inl ZeroDivisionError
      else case round64 (of_int a / of_int b) of
             Finite q \<Rightarrow> Inr q
           | _ \<Rightarrow> Inl OverflowError)"

text \<open>Python's \<open>n * x\<close> for an \<open>int\<close> and a finite \<open>float\<close>: \<open>n\<close> is converted first.\<close>

definition py_int_mul_float :: "int \<Rightarrow> real \<Rightarrow> exn + f64" where
  "py_int_mul_float n x =
     (case round64 (of_int n) of
        Finite a \<Rightarrow> Inr (round64 (a * x))
      | _ \<Rightarrow> Inl OverflowError)"

definition trunc :: "real \<Rightarrow> int" where
  "trunc q = (if 0 \<le> q then \<lfloor>q\<rfloor> else \<lceil>q\<rceil>)"

text \<open>Python's \<open>int(x)\<close> on a \<open>float\<close>: truncation towards zero.\<close>

definition py_int :: "f64 \<Rightarrow> exn + int" where
  "py_int x = (case x of Finite q \<Rightarrow> Inr (trunc q) | _ \<Rightarrow> Inl OverflowError)"

section \<open>numpy arrays of 16-bit samples\<close>

type_synonym byte = "8 word"
type_synonym int16 = "16 word"

text \<open>
  \<open>np.frombuffer(raw, dtype=np.int16)\<close>: two bytes per sample, low byte first (the
  byte order of the machines the audio library runs on); a buffer of odd size is refused.
\<close>

fun frombuffer_int16 :: "byte list \<Rightarrow> exn + int16 list" where
  "frombuffer_int16 [] = Inr []"
| "frombuffer_int16 [b] = Inl ValueError"
| "frombuffer_int16 (lo # hi # bs) =
     (case frombuffer_int16 bs of
        Inl e \<Rightarrow> Inl e
      | Inr ws \<Rightarrow> Inr ((push_bit 8 (ucast hi) OR ucast lo) # ws))"

text \<open>\<open>array.tobytes()\<close> of an \<open>int16\<close> array.\<close>

fun tobytes :: "int16 list \<Rightarrow> byte list" where
  "tobytes [] = []"
| "tobytes (w # ws) = ucast w # ucast (drop_bit 8 w) # tobytes ws"

text \<open>
  The literal \<open>1.1\<close> as a binary64 number, \<open>0x1.199999999999ap+0\<close>, and
  \<open>array * 1.1\<close> on one \<open>int16\<close> element: numpy computes in \<open>float64\<close>.
\<close>

definition gain :: real where
  "gain = 2476979795053773 / 2251799813685248"

definition mul_gain :: "int16 \<Rightarrow> f64" where
  "mul_gain w = round64 (of_int (sint w) * gain)"

text \<open>\<open>np.clip(x, lo, hi)\<close> on one \<open>float64\<close> element, with integer bounds.\<close>

definition clip :: "int \<Rightarrow> int \<Rightarrow> f64 \<Rightarrow> f64" where
  "clip lo hi x =
     (case x of
        Finite q \<Rightarrow> Finite (min (max q (of_int lo)) (of_int hi))
      | PosInf \<Rightarrow> Finite (of_int hi)
      | NegInf \<Rightarrow> Finite (of_int lo))"

text \<open>
  \<open>x.astype(np.int16)\<close> on one \<open>float64\<close> element. A value whose truncation fits
  16 bits is truncated towards zero. For any other value (too large, or infinite) the
  conversion is not defined by C and the result depends on the platform: it is the
  parameter \<open>oor\<close>.
\<close>

definition astype_int16 :: "(f64 \<Rightarrow> int16) \<Rightarrow> f64 \<Rightarrow> int16" where
  "astype_int16 oor x =
     (case x of
        Finite q \<Rightarrow> if - 32769 < q \<and> q < 32768 then word_of_int (trunc q) else oor x
      | _ \<Rightarrow> oor x)"

section \<open>The client object\<close>

text \<open>
  What the client calls outside this repository, as parameters: \<open>scipy.signal.resample\<close>
  (given the samples and the requested length, it returns a \<open>float64\<close> array or
  raises) and the platform's conversion of an out-of-range \<open>float64\<close> to \<open>int16\<close>.
\<close>

record numerics =
  scipy_resample :: "int16 list \<Rightarrow> int \<Rightarrow> exn + f64 list"
  cast_out_of_range :: "f64 \<Rightarrow> int16"

datatype pyaudio = PyAudio
datatype event_loop = EventLoop

record stream =
  stream_rate :: int
  stream_device :: "nat option"
  stream_frames_per_buffer :: int
  stream_active :: bool

text \<open>The fields of \<open>MicrophoneTranscriptionClient\<close>, as \<open>__init__\<close> sets them up.\<close>

record client =
  is_connected :: bool
  is_recording :: bool
  audio_stream :: "stream option"
  pyaudio_instance :: "pyaudio option"
  loop :: "event_loop option"
  audio_queue :: "byte list list"
  sample_rate :: int
  channels :: int
  sample_width :: int
  chunk_size :: int
  input_sample_rate :: int
  is_windows :: bool
  frames_per_buffer :: int

definition init :: "int \<Rightarrow> bool \<Rightarrow> client" where
  "init chunkSize windows =
     \<lparr> is_connected = False, is_recording = False, audio_stream = None,
       pyaudio_instance = None, loop = None, audio_queue = [],
       sample_rate = 8000, channels = 1, sample_width = 2, chunk_size = chunkSize,
       input_sample_rate = 44100, is_windows = windows,
       frames_per_buffer = (if windows then max 512 (chunkSize div 4) else chunkSize div 2) \<rparr>"

section \<open>Audio transformer\<close>

text \<open>\<open>_resample_audio\<close>.\<close>

definition resample_audio :: "numerics \<Rightarrow> int16 list \<Rightarrow> int \<Rightarrow> int \<Rightarrow> exn + int16 list" where
  "resample_audio nm audio_data original_rate target_rate =
     (if original_rate = target_rate then Inr audio_data
      else
        and_then (py_truediv target_rate original_rate) (\<lambda>ratio.
        and_then (py_int_mul_float (int (length audio_data)) ratio) (\<lambda>product.
        and_then (py_int product) (\<lambda>resampled_length.
        and_then (scipy_resample nm audio_data resampled_length) (\<lambda>resampled_data.
        Inr (map (astype_int16 (cast_out_of_range nm)) resampled_data))))))"

text \<open>The gain line of \<open>_process_audio_chunk\<close>, on one sample.\<close>

definition boost :: "(f64 \<Rightarrow> int16) \<Rightarrow> int16 \<Rightarrow> int16" where
  "boost oor w = astype_int16 oor (clip (- 32768) 32767 (mul_gain w))"

text \<open>\<open>_process_audio_chunk\<close>.\<close>

definition process_audio_chunk :: "numerics \<Rightarrow> client \<Rightarrow> byte list \<Rightarrow> exn + byte list" where
  "process_audio_chunk nm self raw_audio =
     and_then (frombuffer_int16 raw_audio) (\<lambda>audio_array.
     and_then (if input_sample_rate self \<noteq> sample_rate self
               then resample_audio nm audio_array (input_sample_rate self) (sample_rate self)
               else Inr audio_array) (\<lambda>audio_array.
     Inr (tobytes (map (boost (cast_out_of_range nm)) audio_array))))"

text \<open>
  The specification's words for the gain stage, "saturating at the 16-bit signed range":
  the scaled value, truncated to an integer, is brought to the nearest bound when it lies
  outside \<open>[-32768, 32767]\<close>.
\<close>

definition saturate16 :: "f64 \<Rightarrow> int" where
  "saturate16 x =
     (case x of
        Finite q \<Rightarrow> max (- 32768) (min 32767 (trunc q))
      | PosInf \<Rightarrow> 32767
      | NegInf \<Rightarrow> - 32768)"

section \<open>The environment: audio subsystem and transport\<close>

text \<open>
  The calls that leave the client. A trace lists them in the order they are made:
  \<open>Did a\<close> for a call that returned, \<open>Raised a e\<close> for one that raised \<open>e\<close>.
  Log lines are not recorded.
\<close>

datatype action =
    PaInit
  | OpenStream int "nat option"
  | StartStream
  | StopStream
  | CloseStream
  | PaTerminate
  | ScheduleEmit string "byte list"
  | Emit string
  | SioDisconnect

datatype event = Did action | Raised action exn

text \<open>
  The trace of a sequence of calls that ends at the first one that raises: each call with
  the answer it gets.
\<close>

fun until_failure :: "(action \<times> exn option) list \<Rightarrow> event list" where
  "until_failure [] = []"
| "until_failure ((a, None) # rest) = Did a # until_failure rest"
| "until_failure ((a, Some e) # rest) = [Raised a e]"


record device_info =
  name :: string
  maxInputChannels :: int
  defaultSampleRate :: real

text \<open>
  What the audio library answers: \<open>None\<close> when a call returns normally, the exception
  when it raises.
\<close>

record audio_env =
  pa_init :: "exn option"
  get_device_count :: "exn + nat"
  get_device_info_by_index :: "nat \<Rightarrow> exn + device_info"
  is_format_supported :: "int \<Rightarrow> nat \<Rightarrow> exn + bool"
  open_stream :: "int \<Rightarrow> nat option \<Rightarrow> exn option"
  start_stream :: "exn option"
  stop_stream :: "exn option"
  close_stream :: "exn option"
  terminate :: "exn option"

text \<open>What the event loop and the socket client answer.\<close>

record transport_env =
  call_soon_threadsafe :: "exn option"
  create_task :: "exn option"
  emit_stream_end :: "exn option"
  sio_disconnect :: "exn option"

section \<open>Device selector\<close>

record descriptor =
  index :: nat
  dname :: string
  priority :: nat
  default_sample_rate :: real
  supported_rates :: "int list"
  dchannels :: int

text \<open>
  \<open>str.lower\<close> and the operator \<open>in\<close> on strings. A string is a list of
  characters with codes below 256 (ASCII and the Latin-1 range of Unicode), whose capital
  letters are \<open>A\<close>..\<open>Z\<close> and the codes 192 to 222 but 215.
\<close>

definition lower_char :: "char \<Rightarrow> char" where
  "lower_char c =
     (let n = (of_char c :: nat)
      in if (65 \<le> n \<and> n \<le> 90) \<or> (192 \<le> n \<and> n \<le> 222 \<and> n \<noteq> 215)
         then char_of (n + 32) else c)"

definition lower :: "string \<Rightarrow> string" where
  "lower s = map lower_char s"

fun starts_with :: "string \<Rightarrow> string \<Rightarrow> bool" where
  "starts_with s [] = True"
| "starts_with [] (p # ps) = False"
| "starts_with (c # cs) (p # ps) = (c = p \<and> starts_with cs ps)"

fun contains :: "string \<Rightarrow> string \<Rightarrow> bool" where
  "contains sub [] = (sub = [])"
| "contains sub (c # cs) = (starts_with (c # cs) sub \<or> contains sub cs)"

definition name_priority :: "string \<Rightarrow> nat" where
  "name_priority device_name =
     (if contains ''logitech'' device_name \<or> contains ''logitec'' device_name then 3
      else if contains ''microphone'' device_name \<or> contains ''mic'' device_name then 2
      else if contains ''headset'' device_name \<or> contains ''headphone'' device_name then 1
      else 0)"

definition test_rates :: "int list" where
  "test_rates = [44100, 48000, 16000, 8000]"

text \<open>The inner loop over \<open>test_rates\<close>: a rate whose query raises is skipped.\<close>

definition probe_rates :: "audio_env \<Rightarrow> nat \<Rightarrow> int list" where
  "probe_rates env i = filter (\<lambda>rate. is_format_supported env rate i = Inr True) test_rates"

text \<open>
  One round of the loop over the devices: the descriptor that is appended, if any. A
  device whose query raises is skipped.
\<close>

definition describe_device :: "audio_env \<Rightarrow> nat \<Rightarrow> descriptor option" where
  "describe_device env i =
     (case get_device_info_by_index env i of
        Inl e \<Rightarrow> None
      | Inr device_info \<Rightarrow>
          if maxInputChannels device_info > 0 then
            (let rates = probe_rates env i in
             if rates \<noteq> [] then
               Some \<lparr> index = i, dname = name device_info,
                      priority = name_priority (lower (name device_info)),
                      default_sample_rate = defaultSampleRate device_info,
                      supported_rates = rates,
                      dchannels = maxInputChannels device_info \<rparr>
             else None)
          else None)"

text \<open>
  The sort key \<open>(priority, 44100 in supported_rates, len(supported_rates))\<close>, compared
  as Python compares tuples, and \<open>list.sort(key=..., reverse=True)\<close>: descending, and
  stable (devices with equal keys keep their order).
\<close>

definition sort_key :: "descriptor \<Rightarrow> nat \<times> bool \<times> nat" where
  "sort_key x = (priority x, 44100 \<in> set (supported_rates x), length (supported_rates x))"

fun key_less :: "nat \<times> bool \<times> nat \<Rightarrow> nat \<times> bool \<times> nat \<Rightarrow> bool" where
  "key_less (p1, b1, n1) (p2, b2, n2) =
     (p1 < p2 \<or> (p1 = p2 \<and> ((\<not> b1 \<and> b2) \<or> (b1 = b2 \<and> n1 < n2))))"

fun insert_desc :: "descriptor \<Rightarrow> descriptor list \<Rightarrow> descriptor list" where
  "insert_desc x [] = [x]"
| "insert_desc x (y # ys) =
     (if key_less (sort_key y) (sort_key x) then x # y # ys else y # insert_desc x ys)"

definition sort_desc :: "descriptor list \<Rightarrow> descriptor list" where
  "sort_desc xs = foldl (\<lambda>sorted x. insert_desc x sorted) [] xs"

text \<open>The rate that \<open>_find_best_microphone\<close> stores for the device it selects.\<close>

definition best_rate :: "int \<Rightarrow> descriptor \<Rightarrow> int" where
  "best_rate current best_device =
     (if 44100 \<in> set (supported_rates best_device) then 44100
      else if 48000 \<in> set (supported_rates best_device) then 48000
      else case supported_rates best_device of [] \<Rightarrow> current | r # rs \<Rightarrow> r)"

text \<open>\<open>_find_best_microphone\<close>: the client afterwards, and the index returned.\<close>

definition find_best_microphone :: "audio_env \<Rightarrow> client \<Rightarrow> client \<times> nat option" where
  "find_best_microphone env self =
     (if pyaudio_instance self = None then (self, None)
      else case get_device_count env of
        Inl e \<Rightarrow> (self, None)
      | Inr device_count \<Rightarrow>
          (let microphone_devices = List.map_filter (describe_device env) [0..<device_count]
           in case sort_desc microphone_devices of
                [] \<Rightarrow> (self, None)
              | best_device # others \<Rightarrow>
                  (self\<lparr>input_sample_rate := best_rate (input_sample_rate self) best_device\<rparr>,
                   Some (index best_device))))"

section \<open>Capture driver\<close>


text \<open>
  The loop of \<open>start_recording\<close> over the candidate rates. It leaves at the first rate
  that the audio library accepts, and it raises again the failure of a rate that equals
  16000.
\<close>

fun open_with_fallback ::
  "audio_env \<Rightarrow> client \<Rightarrow> nat option \<Rightarrow> int list \<Rightarrow> client \<times> event list \<times> exn option" where
  "open_with_fallback env self dev [] = (self, [], None)"
| "open_with_fallback env self dev (attempt_rate # rest) =
     (case open_stream env attempt_rate dev of
        None \<Rightarrow>
          ((if attempt_rate \<noteq> input_sample_rate self
            then self\<lparr>audio_stream :=
                        Some \<lparr>stream_rate = attempt_rate, stream_device = dev,
                              stream_frames_per_buffer = frames_per_buffer self,
                              stream_active = False\<rparr>,
                      input_sample_rate := attempt_rate\<rparr>
            else self\<lparr>audio_stream :=
                        Some \<lparr>stream_rate = attempt_rate, stream_device = dev,
                              stream_frames_per_buffer = frames_per_buffer self,
                              stream_active = False\<rparr>\<rparr>),
           [Did (OpenStream attempt_rate dev)], None)
      | Some e \<Rightarrow>
          if attempt_rate = 16000
          then (self, [Raised (OpenStream attempt_rate dev) e], Some e)
          else (case open_with_fallback env self dev rest of
                  (self', evs, r) \<Rightarrow> (self', Raised (OpenStream attempt_rate dev) e # evs, r)))"

text \<open>
  \<open>start_recording\<close>: the client afterwards, the calls made, and the exception that is
  raised again, if any.
\<close>

definition start_recording :: "audio_env \<Rightarrow> client \<Rightarrow> client \<times> event list \<times> exn option" where
  "start_recording env self =
     (if is_recording self then (self, [], None)
      else case pa_init env of
        Some e \<Rightarrow> (self, [Raised PaInit e], Some e)
      | None \<Rightarrow>
          (case find_best_microphone env (self\<lparr>pyaudio_instance := Some PyAudio\<rparr>) of
             (self1, input_device_index) \<Rightarrow>
               (case (case input_device_index of
                        None \<Rightarrow> None
                      | Some i \<Rightarrow>
                          (case get_device_info_by_index env i of
                             Inl e \<Rightarrow> Some e
                           | Inr device_info \<Rightarrow> None)) of
                  Some e \<Rightarrow> (self1, [Did PaInit], Some e)
                | None \<Rightarrow>
                    (case open_with_fallback env self1 input_device_index
                            [input_sample_rate self1, 44100, 48000, 16000] of
                       (self2, evs, Some e) \<Rightarrow> (self2, Did PaInit # evs, Some e)
                     | (self2, evs, None) \<Rightarrow>
                         (case audio_stream self2 of
                            None \<Rightarrow> (self2, Did PaInit # evs, Some AttributeError)
                          | Some st \<Rightarrow>
                              (case start_stream env of
                                 Some e \<Rightarrow>
                                   (self2, Did PaInit # evs @ [Raised StartStream e], Some e)
                               | None \<Rightarrow>
                                   (self2\<lparr>audio_stream := Some (st\<lparr>stream_active := True\<rparr>),
                                          is_recording := True\<rparr>,
                                    Did PaInit # evs @ [Did StartStream], None)))))))"

text \<open>
  The three blocks in the \<open>try\<close> of \<open>stop_recording\<close>, each with the client
  afterwards, the calls made, and the exception that ends the \<open>try\<close>, if any.
\<close>

definition release_stream :: "audio_env \<Rightarrow> client \<Rightarrow> client \<times> event list \<times> exn option" where
  "release_stream env self =
     (if audio_stream self \<noteq> None then
        (case stop_stream env of
           Some e \<Rightarrow> (self, [Raised StopStream e], Some e)
         | None \<Rightarrow>
             (case close_stream env of
                Some e \<Rightarrow> (self, [Did StopStream, Raised CloseStream e], Some e)
              | None \<Rightarrow> (self\<lparr>audio_stream := None\<rparr>, [Did StopStream, Did CloseStream], None)))
      else (self, [], None))"

definition release_pyaudio :: "audio_env \<Rightarrow> client \<Rightarrow> client \<times> event list \<times> exn option" where
  "release_pyaudio env self =
     (if pyaudio_instance self \<noteq> None then
        (case terminate env of
           Some e \<Rightarrow> (self, [Raised PaTerminate e], Some e)
         | None \<Rightarrow> (self\<lparr>pyaudio_instance := None\<rparr>, [Did PaTerminate], None))
      else (self, [], None))"

definition send_stream_end :: "transport_env \<Rightarrow> client \<Rightarrow> client \<times> event list \<times> exn option" where
  "send_stream_end tr self =
     (if is_connected self then
        (case emit_stream_end tr of
           Some e \<Rightarrow> (self, [Raised (Emit ''streamEnd'') e], Some e)
         | None \<Rightarrow> (self, [Did (Emit ''streamEnd'')], None))
      else (self, [], None))"

text \<open>\<open>stop_recording\<close>: an exception in the \<open>try\<close> is logged and ends the method.\<close>

definition stop_recording :: "audio_env \<Rightarrow> transport_env \<Rightarrow> client \<Rightarrow> client \<times> event list" where
  "stop_recording env tr self =
     (if \<not> is_recording self then (self, [])
      else
        (case release_stream env (self\<lparr>is_recording := False\<rparr>) of
           (self1, evs1, Some e) \<Rightarrow> (self1, evs1)
         | (self1, evs1, None) \<Rightarrow>
             (case release_pyaudio env self1 of
                (self2, evs2, Some e) \<Rightarrow> (self2, evs1 @ evs2)
              | (self2, evs2, None) \<Rightarrow>
                  (case send_stream_end tr self2 of
                     (self3, evs3, r) \<Rightarrow> (self3, evs1 @ evs2 @ evs3)))))"

text \<open>\<open>disconnect\<close>: an exception of the socket's \<open>disconnect\<close> is not caught.\<close>

definition disconnect ::
  "audio_env \<Rightarrow> transport_env \<Rightarrow> client \<Rightarrow> client \<times> event list \<times> exn option" where
  "disconnect env tr self =
     (case stop_recording env tr self of
        (self1, evs) \<Rightarrow>
          if is_connected self1 then
            (case sio_disconnect tr of
               Some e \<Rightarrow> (self1, evs @ [Raised SioDisconnect e], Some e)
             | None \<Rightarrow> (self1, evs @ [Did SioDisconnect], None))
          else (self1, evs, None))"

section \<open>Python values\<close>

text \<open>
  The values that a configuration and a decoded event payload are made of. A string is
  a list of characters with codes below 256 (ASCII and the Latin-1 range of Unicode); a
  dictionary lists its items in insertion order, its keys are strings. The text that
  Python prints for a \<open>float\<close> (its shortest representation that reads back) is not
  modelled: it is the parameter \<open>fr\<close> of the functions below.
\<close>

datatype pyval =
    PNone
  | PBool bool
  | PInt int
  | PFloat real
  | PStr string
  | PList "pyval list"
  | PDict "(string \<times> pyval) list"

text \<open>Truth value testing, as \<open>or\<close>, \<open>and\<close> and \<open>if\<close> do it.\<close>

fun truthy :: "pyval \<Rightarrow> bool" where
  "truthy PNone = False"
| "truthy (PBool b) = b"
| "truthy (PInt i) = (i \<noteq> 0)"
| "truthy (PFloat x) = (x \<noteq> 0)"
| "truthy (PStr s) = (s \<noteq> [])"
| "truthy (PList xs) = (xs \<noteq> [])"
| "truthy (PDict d) = (d \<noteq> [])"

definition py_or :: "pyval \<Rightarrow> pyval \<Rightarrow> pyval" where
  "py_or a b = (if truthy a then a else b)"

text \<open>\<open>dict.get(key)\<close> and \<open>dict.get(key, default)\<close>.\<close>

definition dict_get :: "(string \<times> pyval) list \<Rightarrow> string \<Rightarrow> pyval \<Rightarrow> pyval" where
  "dict_get d key dflt = (case map_of d key of None \<Rightarrow> dflt | Some v \<Rightarrow> v)"

text \<open>\<open>d[key] = value\<close>: a present key keeps its place, a new one goes last.\<close>

fun dict_set :: "(string \<times> 'v) list \<Rightarrow> string \<Rightarrow> 'v \<Rightarrow> (string \<times> 'v) list" where
  "dict_set [] key v = [(key, v)]"
| "dict_set ((k, w) # d) key v = (if k = key then (k, v) # d else (k, w) # dict_set d key v)"

text \<open>Decimal digits of an \<open>int\<close>, and two hexadecimal digits of a character code.\<close>

fun digits :: "nat \<Rightarrow> string" where
  "digits n = (if n < 10 then [char_of (48 + n)] else digits (n div 10) @ [char_of (48 + n mod 10)])"

declare digits.simps [simp del]

definition str_int :: "int \<Rightarrow> string" where
  "str_int i = (if i < 0 then CHR ''-'' # digits (nat (- i)) else digits (nat i))"

definition hex_digit :: "bool \<Rightarrow> nat \<Rightarrow> char" where
  "hex_digit upper n =
     (if n < 10 then char_of (48 + n) else char_of ((if upper then 55 else 87) + n))"

definition hex2 :: "bool \<Rightarrow> nat \<Rightarrow> string" where
  "hex2 upper n = [hex_digit upper (n div 16 mod 16), hex_digit upper (n mod 16)]"

fun join :: "string \<Rightarrow> string list \<Rightarrow> string" where
  "join sep [] = []"
| "join sep [s] = s"
| "join sep (s # t # ss) = s @ sep @ join sep (t # ss)"

text \<open>
  \<open>repr\<close> of a string: single quotes, unless the string has a single quote and no
  double quote; the quote and the backslash are escaped, tab, newline and return have
  their letters, and any other character that is not printable (control characters, the
  no-break space, the soft hyphen) is written \<open>\xNN\<close>.
\<close>

definition repr_char :: "char \<Rightarrow> char \<Rightarrow> string" where
  "repr_char quote c =
     (let n = (of_char c :: nat) in
      if c = quote \<or> c = CHR 0x5C then [CHR 0x5C, c]
      else if n = 9 then [CHR 0x5C, CHR ''t'']
      else if n = 10 then [CHR 0x5C, CHR ''n'']
      else if n = 13 then [CHR 0x5C, CHR ''r'']
      else if n < 32 \<or> (127 \<le> n \<and> n \<le> 160) \<or> n = 173 then [CHR 0x5C, CHR ''x''] @ hex2 False n
      else [c])"

definition repr_str :: "string \<Rightarrow> string" where
  "repr_str s =
     (let quote = (if CHR 0x27 \<in> set s \<and> CHR 0x22 \<notin> set s then CHR 0x22 else CHR 0x27)
      in [quote] @ concat (map (repr_char quote) s) @ [quote])"

text \<open>\<open>repr(v)\<close> and \<open>str(v)\<close>.\<close>

fun py_repr :: "(real \<Rightarrow> string) \<Rightarrow> pyval \<Rightarrow> string" where
  "py_repr fr PNone = ''None''"
| "py_repr fr (PBool b) = (if b then ''True'' else ''False'')"
| "py_repr fr (PInt i) = str_int i"
| "py_repr fr (PFloat x) = fr x"
| "py_repr fr (PStr s) = repr_str s"
| "py_repr fr (PList xs) = ''['' @ join '', '' (map (py_repr fr) xs) @ '']''"
| "py_repr fr (PDict d) =
     ''{'' @ join '', '' (map (\<lambda>(k, v). repr_str k @ '': '' @ py_repr fr v) d) @ ''}''"

definition py_str :: "(real \<Rightarrow> string) \<Rightarrow> pyval \<Rightarrow> string" where
  "py_str fr v = (case v of PStr s \<Rightarrow> s | _ \<Rightarrow> py_repr fr v)"

text \<open>
  \<open>json.dumps(v)\<close> with its defaults: items separated by \<open>", "\<close>, keys by
  \<open>": "\<close>, and every character outside the printable ASCII range escaped.
\<close>

definition json_char :: "char \<Rightarrow> string" where
  "json_char c =
     (let n = (of_char c :: nat) in
      if c = CHR 0x22 \<or> c = CHR 0x5C then [CHR 0x5C, c]
      else if n = 8 then [CHR 0x5C, CHR ''b'']
      else if n = 9 then [CHR 0x5C, CHR ''t'']
      else if n = 10 then [CHR 0x5C, CHR ''n'']
      else if n = 12 then [CHR 0x5C, CHR ''f'']
      else if n = 13 then [CHR 0x5C, CHR ''r'']
      else if n < 32 \<or> 127 \<le> n then [CHR 0x5C, CHR ''u'', CHR ''0'', CHR ''0''] @ hex2 False n
      else [c])"

definition json_str :: "string \<Rightarrow> string" where
  "json_str s = [CHR 0x22] @ concat (map json_char s) @ [CHR 0x22]"

fun json_dumps :: "(real \<Rightarrow> string) \<Rightarrow> pyval \<Rightarrow> string" where
  "json_dumps fr PNone = ''null''"
| "json_dumps fr (PBool b) = (if b then ''true'' else ''false'')"
| "json_dumps fr (PInt i) = str_int i"
| "json_dumps fr (PFloat x) = fr x"
| "json_dumps fr (PStr s) = json_str s"
| "json_dumps fr (PList xs) = ''['' @ join '', '' (map (json_dumps fr) xs) @ '']''"
| "json_dumps fr (PDict d) =
     ''{'' @ join '', '' (map (\<lambda>(k, v). json_str k @ '': '' @ json_dumps fr v) d) @ ''}''"

text \<open>
  \<open>a == b\<close>: numbers (the truth values among them) are compared by their values,
  strings and lists item by item, dictionaries key by key whatever the order.
\<close>

definition num_of :: "pyval \<Rightarrow> real option" where
  "num_of v =
     (case v of
        PBool b \<Rightarrow> Some (if b then 1 else 0)
      | PInt i \<Rightarrow> Some (of_int i)
      | PFloat x \<Rightarrow> Some x
      | _ \<Rightarrow> None)"

fun py_eq :: "pyval \<Rightarrow> pyval \<Rightarrow> bool" where
  "py_eq (PList xs) (PList ys) = list_all2 py_eq xs ys"
| "py_eq (PDict d) (PDict e) =
     (length d = length e \<and>
      list_all (\<lambda>(k, v). case map_of e k of None \<Rightarrow> False | Some w \<Rightarrow> py_eq v w) d)"
| "py_eq (PStr s) (PStr t) = (s = t)"
| "py_eq PNone PNone = True"
| "py_eq a b = (case (num_of a, num_of b) of (Some x, Some y) \<Rightarrow> x = y | _ \<Rightarrow> False)"

text \<open>Iteration over a value (\<open>for x in v\<close>) and \<open>v[key]\<close> with a string key.\<close>

definition py_iter :: "pyval \<Rightarrow> exn + pyval list" where
  "py_iter v =
     (case v of
        PList xs \<Rightarrow> Inr xs
      | PStr s \<Rightarrow> Inr (map (\<lambda>c. PStr [c]) s)
      | PDict d \<Rightarrow> Inr (map (\<lambda>(k, w). PStr k) d)
      | _ \<Rightarrow> Inl TypeError)"

definition subscript :: "pyval \<Rightarrow> string \<Rightarrow> exn + pyval" where
  "subscript v key =
     (case v of
        PDict d \<Rightarrow> (case map_of d key of None \<Rightarrow> Inl KeyError | Some w \<Rightarrow> Inr w)
      | _ \<Rightarrow> Inl TypeError)"

section \<open>Transport session\<close>

text \<open>
  \<open>urllib.parse.quote_plus\<close> and \<open>urlencode\<close> on a dictionary of strings: letters,
  digits and \<open>_.-~\<close> stay, a space becomes \<open>+\<close>, and every other character is
  written \<open>%XX\<close> for each byte of its UTF-8 encoding.
\<close>

definition quote_plus_char :: "char \<Rightarrow> string" where
  "quote_plus_char c =
     (let n = (of_char c :: nat) in
      if (48 \<le> n \<and> n \<le> 57) \<or> (65 \<le> n \<and> n \<le> 90) \<or> (97 \<le> n \<and> n \<le> 122) \<or>
         c \<in> set ''_.-~'' then [c]
      else if n = 32 then ''+''
      else if n < 128 then CHR ''%'' # hex2 True n
      else CHR ''%'' # hex2 True (192 + n div 64) @ CHR ''%'' # hex2 True (128 + n mod 64))"

definition quote_plus :: "string \<Rightarrow> string" where
  "quote_plus s = concat (map quote_plus_char s)"

definition urlencode :: "(string \<times> string) list \<Rightarrow> string" where
  "urlencode query = join ''&'' (map (\<lambda>(k, v). quote_plus k @ ''='' @ quote_plus v) query)"

text \<open>
  The configuration, as \<open>connect\<close> reads it: \<open>sttOptions\<close> may be absent. It is set
  once and only read, so it is an argument of \<open>connect\<close> here.
\<close>

record config =
  serverUrl :: string
  apiKey :: string
  sttOptions :: "(string \<times> pyval) list option"

record connect_request =
  url :: string
  namespaces :: "string list"
  socketio_path :: string
  transports :: "string list"
  auth :: "(string \<times> string) list"

definition is_dict :: "pyval \<Rightarrow> bool" where
  "is_dict v = (case v of PDict d \<Rightarrow> True | _ \<Rightarrow> False)"

text \<open>The body of the loop over the options: the string stored for one option.\<close>

definition serialize_option :: "(real \<Rightarrow> string) \<Rightarrow> string \<Rightarrow> pyval \<Rightarrow> string" where
  "serialize_option fr key v =
     (case v of
        PList xs \<Rightarrow> join '','' (map (py_str fr) xs)
      | _ \<Rightarrow> if key = ''tags'' \<and> is_dict v then json_dumps fr v else py_str fr v)"

definition build_query_params ::
  "(real \<Rightarrow> string) \<Rightarrow> (string \<times> pyval) list \<Rightarrow> (string \<times> string) list" where
  "build_query_params fr stt_options =
     foldl (\<lambda>query_params (key, v). dict_set query_params key (serialize_option fr key v))
       [] stt_options"

text \<open>The arguments that \<open>connect\<close> passes to the socket client.\<close>

definition connect_request_of :: "(real \<Rightarrow> string) \<Rightarrow> config \<Rightarrow> connect_request" where
  "connect_request_of fr cfg =
     (let stt_options = (case sttOptions cfg of None \<Rightarrow> [] | Some d \<Rightarrow> d);
          query_params = build_query_params fr stt_options;
          query_string = urlencode query_params;
          server_url = serverUrl cfg @ ''/listen'';
          full_url = server_url @ ''?'' @ query_string
      in \<lparr> url = full_url, namespaces = [''/listen''], socketio_path = ''/v1/socket.io'',
           transports = [''websocket''], auth = [(''token'', apiKey cfg)] \<rparr>)"

text \<open>
  \<open>connect\<close>: the client afterwards, the request made, and the exception that is raised
  again, if any. The lines it logs (the first ten characters of the key among them) are
  not recorded.
\<close>

definition connect ::
  "(real \<Rightarrow> string) \<Rightarrow> (connect_request \<Rightarrow> exn option) \<Rightarrow> config \<Rightarrow> client
     \<Rightarrow> client \<times> connect_request \<times> exn option" where
  "connect fr sio_connect cfg self =
     (self\<lparr>loop := Some EventLoop\<rparr>, connect_request_of fr cfg,
      sio_connect (connect_request_of fr cfg))"

section \<open>Result presenter\<close>

text \<open>
  What \<open>_handle_speech_result\<close> prints, one constructor for each \<open>print\<close> of the
  source, with the texts that are formatted into its line.
\<close>

datatype printed =
    Recognizing string
  | FinalResult string
  | Text string
  | Confidence string
  | Duration string
  | TranslationsHeader
  | Translation string string
  | Sentiment string string
  | Redacted string
  | Rule

fun print_translations :: "(real \<Rightarrow> string) \<Rightarrow> pyval list \<Rightarrow> printed list \<times> exn option" where
  "print_translations fr [] = ([], None)"
| "print_translations fr (translation # rest) =
     (case subscript translation ''to'' of
        Inl e \<Rightarrow> ([], Some e)
      | Inr to \<Rightarrow>
          (case subscript translation ''text'' of
             Inl e \<Rightarrow> ([], Some e)
           | Inr tx \<Rightarrow>
               (case print_translations fr rest of
                  (ps, r) \<Rightarrow> (Translation (py_str fr to) (py_str fr tx) # ps, r))))"

definition translations_block ::
  "(real \<Rightarrow> string) \<Rightarrow> (string \<times> pyval) list \<Rightarrow> printed list \<times> exn option" where
  "translations_block fr data =
     (if truthy (dict_get data ''translations'' PNone) then
        (case py_iter (dict_get data ''translations'' PNone) of
           Inl e \<Rightarrow> ([TranslationsHeader], Some e)
         | Inr ts \<Rightarrow>
             (case print_translations fr ts of (ps, r) \<Rightarrow> (TranslationsHeader # ps, r)))
      else ([], None))"

definition sentiment_block ::
  "(real \<Rightarrow> string) \<Rightarrow> (string \<times> pyval) list \<Rightarrow> printed list \<times> exn option" where
  "sentiment_block fr data =
     (if truthy (dict_get data ''sentiment'' PNone) then
        (case subscript (dict_get data ''sentiment'' PNone) ''label'' of
           Inl e \<Rightarrow> ([], Some e)
         | Inr label \<Rightarrow>
             (case subscript (dict_get data ''sentiment'' PNone) ''score'' of
                Inl e \<Rightarrow> ([], Some e)
              | Inr score \<Rightarrow> ([Sentiment (py_str fr label) (py_str fr score)], None)))
      else ([], None))"

definition redacted_block ::
  "(real \<Rightarrow> string) \<Rightarrow> (string \<times> pyval) list \<Rightarrow> pyval \<Rightarrow> printed list" where
  "redacted_block fr data text =
     (if truthy (dict_get data ''redactedText'' PNone) \<and>
         \<not> py_eq (dict_get data ''redactedText'' PNone) text
      then [Redacted (py_str fr (dict_get data ''redactedText'' PNone))] else [])"

text \<open>\<open>_handle_speech_result\<close>: what is printed, and the exception raised, if any.\<close>

definition handle_speech_result ::
  "(real \<Rightarrow> string) \<Rightarrow> (string \<times> pyval) list \<Rightarrow> printed list \<times> exn option" where
  "handle_speech_result fr data =
     (let status = dict_get data ''status'' PNone;
          message_id = dict_get data ''messageId'' PNone;
          text = dict_get data ''text'' (PStr []);
          confidence = dict_get data ''confidence'' PNone;
          duration = dict_get data ''duration'' PNone
      in if py_eq status (PStr ''recognizing'') then
           ([Recognizing (py_str fr (py_or text (PStr ''...'')))], None)
         else if py_eq status (PStr ''recognized'') then
           (let final =
                  [FinalResult (py_str fr message_id),
                   Text (py_str fr text),
                   Confidence (py_str fr (py_or confidence (PStr ''N/A''))),
                   Duration (py_str fr (py_or duration (PStr ''N/A'')))]
            in case translations_block fr data of
                 (ps1, Some e) \<Rightarrow> (final @ ps1, Some e)
               | (ps1, None) \<Rightarrow>
                   (case sentiment_block fr data of
                      (ps2, Some e) \<Rightarrow> (final @ ps1 @ ps2, Some e)
                    | (ps2, None) \<Rightarrow>
                        (final @ ps1 @ ps2 @ redacted_block fr data text @ [Rule], None)))
         else ([], None))"

text \<open>
  A stand-in for the text of a \<open>float\<close>, right for the integral values below
  \<open>10 ^ 16\<close> in magnitude (\<open>8000.0\<close>, \<open>0.0\<close>), to run the model on concrete inputs.
\<close>

definition repr_integral :: "real \<Rightarrow> string" where
  "repr_integral x = str_int \<lfloor>x\<rfloor> @ ''.0''"

section \<open>Stand-ins for the external numerics\<close>

text \<open>
  Concrete values of the parameters, to run the model on concrete inputs: a resampler
  that returns as many samples as it is asked for (as \<open>scipy.signal.resample\<close> does
  on a non-empty array), one that moreover refuses an empty array (scipy's resampler
  starts with a Fourier transform of its input, which rejects zero data points), and the
  conversion that wraps modulo \<open>2 ^ 16\<close>.
\<close>

definition zero_resample :: "int16 list \<Rightarrow> int \<Rightarrow> exn + f64 list" where
  "zero_resample a n = Inr (replicate (nat n) (Finite 0))"

definition strict_resample :: "int16 list \<Rightarrow> int \<Rightarrow> exn + f64 list" where
  "strict_resample a n = (if a = [] then Inl ValueError else zero_resample a n)"

definition wrap_cast :: "f64 \<Rightarrow> int16" where
  "wrap_cast x = (case x of Finite q \<Rightarrow> word_of_int (trunc q) | _ \<Rightarrow> 0)"

text \<open>
  The answer of a Fourier resampler that halves the rate of four samples at the upper
  bound followed by four at the lower bound (close to the values that
  \<open>scipy.signal.resample\<close> gives): next to the step it leaves the 16-bit range.
\<close>

definition overshoot_resample :: "int16 list \<Rightarrow> int \<Rightarrow> exn + f64 list" where
  "overshoot_resample a n =
     Inr (map Finite (take (nat n) [65533 / 4, 39553371 / 1000, - 65537 / 4, - 39554371 / 1000]))"

section \<open>Properties of the audio transformer\<close>

lemma recombine: "push_bit 8 (ucast (ucast (drop_bit 8 w) :: 8 word)) OR ucast (ucast w :: 8 word) = (w::16 word)"
  by (rule bit_word_eqI) (auto simp: bit_simps)

lemma frombuffer_tobytes: "frombuffer_int16 (tobytes ws) = Inr ws"
  by (induction ws) (simp_all add: recombine)

lemma length_tobytes: "length (tobytes ws) = 2 * length ws"
  by (induction ws) simp_all

lemma trunc_of_int: "trunc (of_int k) = k"
  by (simp add: trunc_def)

lemma trunc_mono: "trunc a \<le> trunc b" if "a \<le> b"
proof (cases "0 \<le> a")
  case True
  with that show ?thesis by (simp add: trunc_def floor_mono)
next
  case False
  show ?thesis
  proof (cases "0 \<le> b")
    case True
    have "\<lceil>a\<rceil> \<le> 0" using False by (simp add: ceiling_le_iff)
    moreover have "0 \<le> \<lfloor>b\<rfloor>" using True by simp
    ultimately have "\<lceil>a\<rceil> \<le> \<lfloor>b\<rfloor>" by (rule order_trans)
    then show ?thesis using False True by (simp add: trunc_def)
  next
    case nb: False
    with False that show ?thesis by (simp add: trunc_def ceiling_mono)
  qed
qed

lemma trunc_clamp:
  "trunc (min (max q (of_int lo)) (of_int hi)) = min (max (trunc q) lo) hi" if "lo \<le> hi"
proof -
  consider "q \<le> of_int lo" | "of_int lo < q" "q \<le> of_int hi" | "of_int hi < q" by linarith
  then show ?thesis
  proof cases
    case 1
    then have "trunc q \<le> lo" using trunc_mono [OF 1] by (simp add: trunc_of_int)
    with 1 that show ?thesis by (simp add: max_def min_def trunc_of_int)
  next
    case 2
    have a: "lo \<le> trunc q" using trunc_mono [of "of_int lo" q] 2 by (simp add: trunc_of_int)
    have b: "trunc q \<le> hi" using trunc_mono [of q "of_int hi"] 2 by (simp add: trunc_of_int)
    from 2 a b show ?thesis by (simp add: max_def min_def)
  next
    case 3
    then have "hi \<le> trunc q" using trunc_mono [of "of_int hi" q] by (simp add: trunc_of_int)
    with 3 that show ?thesis by (auto simp add: max_def min_def trunc_of_int)
  qed
qed

lemma sint_int16: "- 32768 \<le> k \<Longrightarrow> k \<le> 32767 \<Longrightarrow> sint (word_of_int k :: 16 word) = k"
  by (simp add: sint_sbintrunc' signed_take_bit_int_eq_self)

lemma boost_sat: "sint (boost oor w) = saturate16 (mul_gain w)"
proof (cases "mul_gain w")
  case (Finite q)
  let ?c = "min (max q (of_int (- 32768))) (of_int 32767)"
  have t: "trunc ?c = min (max (trunc q) (- 32768)) 32767"
    by (rule trunc_clamp) simp
  have r: "- 32769 < ?c \<and> ?c < 32768" by (simp add: min_def max_def)
  have "boost oor w = word_of_int (trunc ?c)"
    using r by (simp add: boost_def Finite clip_def astype_int16_def)
  then have "sint (boost oor w) = trunc ?c"
    using t by (simp add: sint_int16)
  with t show ?thesis by (simp add: saturate16_def Finite max_def min_def)
next
  case PosInf
  then show ?thesis
    by (simp add: boost_def clip_def astype_int16_def saturate16_def trunc_def)
next
  case NegInf
  then show ?thesis
    by (simp add: boost_def clip_def astype_int16_def saturate16_def trunc_def)
qed

lemma saturate16_range: "- 32768 \<le> saturate16 x \<and> saturate16 x \<le> 32767"
  by (cases x) (simp_all add: saturate16_def)

text \<open>
  The gain stage by itself saturates: every sample of the transform's output is the
  sample that enters the gain stage (the input sample, or the resampled and converted
  one when the rates differ) multiplied by 1.1 and brought into the signed 16-bit range,
  a product outside the range being clamped to the bound. This is measured from the
  array after the conversion that ends the resampling; that conversion is the subject
  of the next theorem.
\<close>

lemma gain_saturates:
  assumes "process_audio_chunk nm self raw_audio = Inr out"
  shows "\<exists>arr xs ys.
           frombuffer_int16 raw_audio = Inr arr \<and>
           (if input_sample_rate self \<noteq> sample_rate self
            then resample_audio nm arr (input_sample_rate self) (sample_rate self)
            else Inr arr) = Inr xs \<and>
           frombuffer_int16 out = Inr ys \<and>
           map sint ys = map (\<lambda>x. saturate16 (mul_gain x)) xs \<and>
           list_all (\<lambda>y. - 32768 \<le> sint y \<and> sint y \<le> 32767) ys"
proof -
  from assms obtain arr where arr: "frombuffer_int16 raw_audio = Inr arr"
    by (cases "frombuffer_int16 raw_audio") (simp_all add: process_audio_chunk_def and_then_def)
  let ?stage = "if input_sample_rate self \<noteq> sample_rate self
            then resample_audio nm arr (input_sample_rate self) (sample_rate self)
            else Inr arr"
  from assms arr obtain xs where xs: "?stage = Inr xs"
    by (cases ?stage) (simp_all add: process_audio_chunk_def and_then_def)
  let ?ys = "map (boost (cast_out_of_range nm)) xs"
  from assms arr xs have out: "out = tobytes ?ys"
    by (simp add: process_audio_chunk_def and_then_def)
  have 1: "frombuffer_int16 out = Inr ?ys" by (simp add: out frombuffer_tobytes)
  have 2: "map sint ?ys = map (\<lambda>x. saturate16 (mul_gain x)) xs"
    by (simp add: boost_sat)
  have 3: "list_all (\<lambda>y. - 32768 \<le> sint y \<and> sint y \<le> 32767) ?ys"
    using saturate16_range by (simp add: list_all_iff boost_sat)
  from arr xs 1 2 3 show ?thesis by blast
qed

lemma gain_saturates_witness:
  "process_audio_chunk \<lparr>scipy_resample = (\<lambda>a n. Inl ValueError), cast_out_of_range = (\<lambda>x. 0)\<rparr>
       ((init 1024 False)\<lparr>input_sample_rate := 8000\<rparr>) [0x30, 0x75, 0xD0, 0x8A, 0x64, 0]
     = Inr [0xFF, 0x7F, 0, 0x80, 0x6E, 0] \<and>
   (\<exists>ys. frombuffer_int16 [0xFF, 0x7F, 0, 0x80, 0x6E, 0] = Inr ys \<and>
      map sint ys = map (\<lambda>x. saturate16 (mul_gain x)) [30000, 35536, 100])"
proof -
  let ?nm = "\<lparr>scipy_resample = (\<lambda>a n. Inl ValueError), cast_out_of_range = (\<lambda>x. 0)\<rparr>"
  let ?self = "(init 1024 False)\<lparr>input_sample_rate := 8000\<rparr>"
  have a: "frombuffer_int16 [0x30, 0x75, 0xD0, 0x8A, 0x64, 0] = Inr [30000, 35536, 100]"
    by simp
  note r64 = round64_def ilog2_def pow2_def round_half_even_def Let_def bit_length.simps
  have b: "mul_gain 30000 = Finite 33000" "mul_gain 35536 = Finite (- 33000)"
    by (simp_all add: mul_gain_def gain_def r64)
  have c: "mul_gain 100 = Finite (7740561859543041 / 70368744177664)"
    by (simp add: mul_gain_def gain_def r64)
  have h: "process_audio_chunk ?nm ?self [0x30, 0x75, 0xD0, 0x8A, 0x64, 0]
     = Inr [0xFF, 0x7F, 0, 0x80, 0x6E, 0]"
    by (simp add: process_audio_chunk_def and_then_def init_def boost_def b c clip_def
        astype_int16_def trunc_def)
  from gain_saturates [OF h] a show ?thesis
    using h by (auto simp: init_def)
qed

lemmas round64_eval = round64_def ilog2_def pow2_def round_half_even_def Let_def bit_length.simps

text \<open>
  The block of four samples at the upper bound and four at the lower bound, resampled
  from 16000 Hz to 8000 Hz with a resampler that overshoots next to the step.
\<close>

lemma half_rate: "py_truediv 8000 16000 = Inr (1 / 2)"
  by (simp add: py_truediv_def round64_eval)

lemma four_samples: "py_int_mul_float 8 (1 / 2) = Inr (Finite 4)"
  by (simp add: py_int_mul_float_def round64_eval)

lemma step_block:
  "frombuffer_int16 [0xFF, 0x7F, 0xFF, 0x7F, 0xFF, 0x7F, 0xFF, 0x7F,
       0, 0x80, 0, 0x80, 0, 0x80, 0, 0x80] =
     Inr [32767, 32767, 32767, 32767, 32768, 32768, 32768, 32768]"
  by simp

lemma overshoot_cast:
  "map (astype_int16 wrap_cast)
     (map Finite [65533 / 4, 39553371 / 1000, - 65537 / 4, - 39554371 / 1000]) =
   [16383, 39553, 49152, 25982]"
  by (simp add: astype_int16_def wrap_cast_def trunc_def)

lemma overshoot_boost:
  "map (boost wrap_cast) [16383, 39553, 49152, 25982] = [18021, 36955, 47514, 28580]"
proof -
  have "mul_gain 16383 = Finite (1238414306102477 / 68719476736)"
    "mul_gain 39553 = Finite (- (1964091980434637 / 68719476736))"
    "mul_gain 49152 = Finite (- (2476979795053773 / 137438953472))"
    "mul_gain 25982 = Finite (7856065556040909 / 274877906944)"
    by (simp_all add: mul_gain_def gain_def round64_eval)
  then show ?thesis
    by (simp add: boost_def clip_def astype_int16_def trunc_def)
qed

lemma overshoot_saturated:
  "map (\<lambda>q. saturate16 (round64 (q * gain)))
     [65533 / 4, 39553371 / 1000, - 65537 / 4, - 39554371 / 1000] =
   [18021, 32767, - 18022, - 32768]"
proof -
  have "round64 (65533 / 4 * gain) = Finite (4953732815834317 / 274877906944)"
    "round64 (39553371 / 1000 * gain) = Finite (2989895654091365 / 68719476736)"
    "round64 (- 65537 / 4 * gain) = Finite (- (1238508795382989 / 68719476736))"
    "round64 (- 39554371 / 1000 * gain) = Finite (- (5979942491031549 / 137438953472))"
    by (simp_all add: gain_def round64_eval)
  then show ?thesis
    by (simp add: saturate16_def trunc_def)
qed

text \<open>
  Claim C6 on the code. The conversion that ends \<open>_resample_audio\<close> is not preceded
  by a clipping, unlike the one of the gain line. On the block above the resampler
  answers \<open>39553.371\<close> for the second sample: the conversion wraps it to
  \<open>-25983\<close> and the transform outputs \<open>-28581\<close>, where the resampled sample
  multiplied by 1.1 and saturated is \<open>32767\<close>; likewise \<open>28580\<close> for
  \<open>-32768\<close> at the fourth sample.
\<close>

theorem resample_cast_wraps:
  "process_audio_chunk \<lparr>scipy_resample = overshoot_resample, cast_out_of_range = wrap_cast\<rparr>
       ((init 1024 False)\<lparr>input_sample_rate := 16000\<rparr>)
       [0xFF, 0x7F, 0xFF, 0x7F, 0xFF, 0x7F, 0xFF, 0x7F, 0, 0x80, 0, 0x80, 0, 0x80, 0, 0x80] =
     Inr (tobytes [18021, 36955, 47514, 28580]) \<and>
   map sint [18021, 36955, 47514, 28580 :: int16] = [18021, - 28581, - 18022, 28580] \<and>
   map (\<lambda>q. saturate16 (round64 (q * gain)))
     [65533 / 4, 39553371 / 1000, - 65537 / 4, - 39554371 / 1000] =
     [18021, 32767, - 18022, - 32768]"
proof (intro conjI)
  have "resample_audio \<lparr>scipy_resample = overshoot_resample, cast_out_of_range = wrap_cast\<rparr>
          [32767, 32767, 32767, 32767, 32768, 32768, 32768, 32768] 16000 8000 =
        Inr [16383, 39553, 49152, 25982]"
    using overshoot_cast
    by (simp add: resample_audio_def and_then_def half_rate four_samples py_int_def trunc_def
        overshoot_resample_def)
  then show "process_audio_chunk
       \<lparr>scipy_resample = overshoot_resample, cast_out_of_range = wrap_cast\<rparr>
       ((init 1024 False)\<lparr>input_sample_rate := 16000\<rparr>)
       [0xFF, 0x7F, 0xFF, 0x7F, 0xFF, 0x7F, 0xFF, 0x7F, 0, 0x80, 0, 0x80, 0, 0x80, 0, 0x80] =
     Inr (tobytes [18021, 36955, 47514, 28580])"
    using step_block overshoot_boost
    by (simp add: process_audio_chunk_def and_then_def init_def)
  show "map sint [18021, 36955, 47514, 28580 :: int16] = [18021, - 28581, - 18022, 28580]"
    by simp
  show "map (\<lambda>q. saturate16 (round64 (q * gain)))
     [65533 / 4, 39553371 / 1000, - 65537 / 4, - 39554371 / 1000] =
     [18021, 32767, - 18022, - 32768]"
    by (rule overshoot_saturated)
qed

lemma frombuffer_replicate: "frombuffer_int16 (replicate (2 * n) 0) = Inr (replicate n 0)"
  by (induction n) simp_all

lemma frombuffer_length: "frombuffer_int16 bs = Inr ws \<Longrightarrow> length bs = 2 * length ws"
  by (induction bs arbitrary: ws rule: frombuffer_int16.induct) (auto split: sum.splits)

lemma ratio_default: "py_truediv 8000 44100 = Inr (3267918096958183 / 18014398509481984)"
  by (simp add: py_truediv_def round64_eval)

lemma product_default:
  "py_int_mul_float 512 (3267918096958183 / 18014398509481984) = Inr (Finite (3267918096958183 / 35184372088832))"
  by (simp add: py_int_mul_float_def round64_eval)

lemma count_default: "py_int (Finite (3267918096958183 / 35184372088832)) = Inr 92"
  by (simp add: py_int_def trunc_def)

text \<open>
  Claim C2 says that a block of \<open>n\<close> samples at differing rates yields
  \<open>round (n * targetRate / sourceRate)\<close> samples. The code computes
  \<open>int(len(audio_data) * ratio)\<close>, which truncates: a block of 1024 bytes (512
  samples) at 44100 Hz for the target 8000 Hz yields 92 samples, 184 bytes, where the
  rounded count is 93 samples, 186 bytes.
\<close>

theorem sample_count_counterexample:
  "map_sum id length
     (process_audio_chunk \<lparr>scipy_resample = zero_resample, cast_out_of_range = wrap_cast\<rparr>
        (init 1024 False) (replicate 1024 0)) = Inr 184 \<and>
   2 * nat (round (512 * 8000 / 44100 :: real)) = 186"
proof -
  have "frombuffer_int16 (replicate 1024 0) = Inr (replicate 512 0)"
    using frombuffer_replicate [of 512] by simp
  then have "map_sum id length
     (process_audio_chunk \<lparr>scipy_resample = zero_resample, cast_out_of_range = wrap_cast\<rparr>
        (init 1024 False) (replicate 1024 0)) = Inr 184"
    by (simp add: process_audio_chunk_def and_then_def init_def resample_audio_def
        ratio_default product_default count_default zero_resample_def length_tobytes)
  moreover have "2 * nat (round (512 * 8000 / 44100 :: real)) = 186"
    by (simp add: round_def)
  ultimately show ?thesis by simp
qed

lemma tobytes_replicate: "tobytes (replicate n 0) = replicate (2 * n) 0"
  by (induction n) simp_all

lemma round64_zero: "round64 0 = Finite 0"
  by (simp add: round64_def)

lemma boost_zero: "boost oor 0 = 0"
  by (simp add: boost_def mul_gain_def round64_zero clip_def astype_int16_def trunc_def)

lemma astype_zero: "astype_int16 oor (Finite 0) = 0"
  by (simp add: astype_int16_def trunc_def)

text \<open>
  Claim C2, amended. When the rates differ and the resampler returns as many samples as
  it is asked for, the transform of a block of \<open>n\<close> samples has exactly
  \<open>int(n * (targetRate / sourceRate))\<close> samples of two bytes each: the binary64
  product of \<open>n\<close> and the binary64 quotient of the rates, truncated towards zero.
\<close>

theorem sample_count_truncated:
  assumes rates: "input_sample_rate self \<noteq> sample_rate self"
    and count: "\<And>a n ys. scipy_resample nm a n = Inr ys \<Longrightarrow> length ys = nat n"
    and run: "process_audio_chunk nm self raw_audio = Inr out"
  shows "\<exists>ratio p.
           py_truediv (sample_rate self) (input_sample_rate self) = Inr ratio \<and>
           py_int_mul_float (int (length raw_audio div 2)) ratio = Inr (Finite p) \<and>
           length out = 2 * nat (trunc p)"
proof -
  from run obtain arr where arr: "frombuffer_int16 raw_audio = Inr arr"
    by (cases "frombuffer_int16 raw_audio") (simp_all add: process_audio_chunk_def and_then_def)
  have n: "length raw_audio div 2 = length arr"
    using frombuffer_length [OF arr] by simp
  from run arr rates obtain xs
    where xs: "resample_audio nm arr (input_sample_rate self) (sample_rate self) = Inr xs"
      and out: "out = tobytes (map (boost (cast_out_of_range nm)) xs)"
    by (cases "resample_audio nm arr (input_sample_rate self) (sample_rate self)")
      (simp_all add: process_audio_chunk_def and_then_def)
  from xs rates obtain ratio
    where ratio: "py_truediv (sample_rate self) (input_sample_rate self) = Inr ratio"
    by (cases "py_truediv (sample_rate self) (input_sample_rate self)")
      (auto simp: resample_audio_def and_then_def)
  from xs rates ratio obtain prod
    where prod: "py_int_mul_float (int (length arr)) ratio = Inr prod"
    by (cases "py_int_mul_float (int (length arr)) ratio")
      (auto simp: resample_audio_def and_then_def)
  from xs rates ratio prod obtain p where p: "prod = Finite p"
    by (cases prod) (auto simp: resample_audio_def and_then_def py_int_def)
  from xs rates ratio prod p obtain ys
    where ys: "scipy_resample nm arr (trunc p) = Inr ys"
      and xs_eq: "xs = map (astype_int16 (cast_out_of_range nm)) ys"
    by (cases "scipy_resample nm arr (trunc p)")
      (auto simp: resample_audio_def and_then_def py_int_def)
  have "length out = 2 * nat (trunc p)"
    using count [OF ys] by (simp add: out xs_eq length_tobytes)
  with ratio prod p n show ?thesis by simp
qed

theorem sample_count_truncated_witness:
  "process_audio_chunk \<lparr>scipy_resample = zero_resample, cast_out_of_range = wrap_cast\<rparr>
       (init 1024 False) (replicate 1024 0) = Inr (replicate 184 0) \<and>
   (\<exists>ratio p. py_truediv 8000 44100 = Inr ratio \<and>
      py_int_mul_float 512 ratio = Inr (Finite p) \<and> (184 :: nat) = 2 * nat (trunc p))"
proof -
  let ?nm = "\<lparr>scipy_resample = zero_resample, cast_out_of_range = wrap_cast\<rparr>"
  have fb: "frombuffer_int16 (replicate 1024 0) = Inr (replicate 512 0)"
    using frombuffer_replicate [of 512] by simp
  have tb: "tobytes (replicate 92 0) = replicate 184 0"
    using tobytes_replicate [of 92] by simp
  have h: "process_audio_chunk ?nm (init 1024 False) (replicate 1024 0) = Inr (replicate 184 0)"
    using fb tb
    by (simp add: process_audio_chunk_def and_then_def init_def resample_audio_def
        ratio_default product_default count_default zero_resample_def astype_zero boost_zero)
  have r: "input_sample_rate (init 1024 False) \<noteq> sample_rate (init 1024 False)"
    by (simp add: init_def)
  have c: "\<And>a n ys. scipy_resample ?nm a n = Inr ys \<Longrightarrow> length ys = nat n"
    by (auto simp: zero_resample_def)
  from sample_count_truncated [OF r c h] h show ?thesis
    by (simp add: init_def)
qed

text \<open>Resampling of the empty array: the quotient of the rates, then the resampler.\<close>

lemma resample_empty_zero_rate:
  "target_rate \<noteq> 0 \<Longrightarrow> resample_audio nm [] 0 target_rate = Inl ZeroDivisionError"
  by (simp add: resample_audio_def py_truediv_def and_then_def)

lemma resample_empty:
  assumes "original_rate \<noteq> target_rate" and "original_rate \<noteq> 0"
  shows "resample_audio nm [] original_rate target_rate =
           (case round64 (of_int target_rate / of_int original_rate) of
              Finite ratio \<Rightarrow>
                (case scipy_resample nm [] 0 of
                   Inl e \<Rightarrow> Inl e
                 | Inr ys \<Rightarrow> Inr (map (astype_int16 (cast_out_of_range nm)) ys))
            | _ \<Rightarrow> Inl OverflowError)"
proof (cases "round64 (of_int target_rate / of_int original_rate)")
  case (Finite ratio)
  have "py_int_mul_float (int (length ([] :: int16 list))) ratio = Inr (Finite 0)"
    by (simp add: py_int_mul_float_def round64_zero)
  moreover have "py_int (Finite 0) = Inr 0"
    by (simp add: py_int_def trunc_def)
  ultimately show ?thesis
    using assms Finite
    by (simp add: resample_audio_def py_truediv_def and_then_def split: sum.splits)
next
  case PosInf
  with assms show ?thesis
    by (simp add: resample_audio_def py_truediv_def and_then_def)
next
  case NegInf
  with assms show ?thesis
    by (simp add: resample_audio_def py_truediv_def and_then_def)
qed

text \<open>
  Claim C5, amended. For the empty block the transform returns the empty output when the
  source rate equals the target rate. When they differ it raises \<open>ZeroDivisionError\<close>
  for the source rate 0, and otherwise it asks the resampler for 0 samples of the empty
  array: it returns the (converted, amplified) array that the resampler returns, empty
  when that one is, and it raises what the resampler raises.
\<close>

theorem empty_block:
  "process_audio_chunk nm self [] =
     (if input_sample_rate self = sample_rate self then Inr []
      else if input_sample_rate self = 0 then Inl ZeroDivisionError
      else case round64 (of_int (sample_rate self) / of_int (input_sample_rate self)) of
             Finite ratio \<Rightarrow>
               (case scipy_resample nm [] 0 of
                  Inl e \<Rightarrow> Inl e
                | Inr ys \<Rightarrow>
                    Inr (tobytes (map (boost (cast_out_of_range nm))
                           (map (astype_int16 (cast_out_of_range nm)) ys))))
           | _ \<Rightarrow> Inl OverflowError)"
proof (cases "input_sample_rate self = sample_rate self")
  case True
  then show ?thesis
    by (simp add: process_audio_chunk_def and_then_def)
next
  case differ: False
  show ?thesis
  proof (cases "input_sample_rate self = 0")
    case True
    with differ have "sample_rate self \<noteq> 0" by simp
    from resample_empty_zero_rate [OF this] True differ show ?thesis
      by (simp add: process_audio_chunk_def and_then_def)
  next
    case False
    from resample_empty [OF differ False, of nm] differ False show ?thesis
      by (simp add: process_audio_chunk_def and_then_def split: f64.splits sum.splits)
  qed
qed

text \<open>
  Claim C5 as stated, for every pair of rates that differ, fails: with the source rate 0
  the quotient of the rates raises, and with a resampler that refuses an empty array the
  transform raises that refusal.
\<close>

theorem empty_block_counterexample:
  "process_audio_chunk \<lparr>scipy_resample = zero_resample, cast_out_of_range = wrap_cast\<rparr>
       ((init 1024 False)\<lparr>input_sample_rate := 0\<rparr>) [] = Inl ZeroDivisionError \<and>
   process_audio_chunk \<lparr>scipy_resample = strict_resample, cast_out_of_range = wrap_cast\<rparr>
       (init 1024 False) [] = Inl ValueError"
proof -
  have ratio: "round64 (80 / 441) = Finite (3267918096958183 / 18014398509481984)"
    by (simp add: round64_eval)
  have "resample_audio \<lparr>scipy_resample = strict_resample, cast_out_of_range = wrap_cast\<rparr>
          [] 44100 8000 = Inl ValueError"
    using resample_empty [of 44100 8000
        "\<lparr>scipy_resample = strict_resample, cast_out_of_range = wrap_cast\<rparr>"]
    by (simp add: ratio strict_resample_def)
  moreover have "resample_audio \<lparr>scipy_resample = zero_resample, cast_out_of_range = wrap_cast\<rparr>
          [] 0 8000 = Inl ZeroDivisionError"
    by (rule resample_empty_zero_rate) simp
  ultimately show ?thesis
    by (simp add: process_audio_chunk_def and_then_def init_def)
qed

section \<open>Properties of the capture driver\<close>




text \<open>
  The loop on the candidates of a selected rate other than 16000: the rates are tried in
  the order given, the first accepted one becomes the source rate, and the loop raises
  only when the four of them have failed.
\<close>

lemma fallback_first:
  "open_stream env r dev = None \<Longrightarrow>
   \<exists>self'. open_with_fallback env self dev (r # rest) = (self', [Did (OpenStream r dev)], None) \<and>
     input_sample_rate self' = r \<and> audio_stream self' \<noteq> None"
  by simp

lemma fallback_next:
  "open_stream env r dev = Some e \<Longrightarrow> r \<noteq> 16000 \<Longrightarrow>
   open_with_fallback env self dev (r # rest) =
     (case open_with_fallback env self dev rest of
        (self', evs, res) \<Rightarrow> (self', Raised (OpenStream r dev) e # evs, res))"
  by simp

lemma fallback_all_fail:
  assumes "r \<noteq> 16000"
    and "open_stream env r dev = Some e1" "open_stream env 44100 dev = Some e2"
    and "open_stream env 48000 dev = Some e3" "open_stream env 16000 dev = Some e4"
  shows "open_with_fallback env self dev [r, 44100, 48000, 16000] =
     (self, [Raised (OpenStream r dev) e1, Raised (OpenStream 44100 dev) e2,
             Raised (OpenStream 48000 dev) e3, Raised (OpenStream 16000 dev) e4], Some e4)"
  using assms by simp

text \<open>
  Claim C3 on the code: the selected rate is 16000 (the only rate that the selected
  device reports as supported), the audio library refuses to open the stream at 16000
  and would accept 44100. The loop raises at the first candidate, since its rate equals
  16000, and the candidates 44100 and 48000 are never tried.
\<close>

theorem fallback_stops_at_selected_16000:
  "start_recording
     \<lparr>pa_init = None, get_device_count = Inr 1,
      get_device_info_by_index =
        (\<lambda>i. Inr \<lparr>name = ''USB Mic'', maxInputChannels = 1, defaultSampleRate = 16000\<rparr>),
      is_format_supported = (\<lambda>rate i. if rate = 16000 then Inr True else Inl ValueError),
      open_stream = (\<lambda>rate dev. if rate = 16000 then Some OSError else None),
      start_stream = None, stop_stream = None, close_stream = None, terminate = None\<rparr>
     (init 1024 False) =
   ((init 1024 False)\<lparr>pyaudio_instance := Some PyAudio, input_sample_rate := 16000\<rparr>,
    [Did PaInit, Raised (OpenStream 16000 (Some 0)) OSError], Some OSError)"
  by (simp add: start_recording_def find_best_microphone_def init_def describe_device_def
      probe_rates_def test_rates_def sort_desc_def best_rate_def List.map_filter_def)

lemmas shutdown_defs = disconnect_def stop_recording_def release_stream_def
  release_pyaudio_def send_stream_end_def

text \<open>
  Claim C4 puts the release of the audio resources after the end-of-stream message and
  the disconnection, and has every step attempted whatever the others do. From a
  connected and recording client, with every call returning normally, the stream is
  closed and the audio subsystem is terminated before \<open>streamEnd\<close> is emitted; and
  when closing the stream raises, neither the termination of the audio subsystem nor
  \<open>streamEnd\<close> is attempted.
\<close>

theorem shutdown_order_counterexample:
  "fst (snd (disconnect
      \<lparr>pa_init = None, get_device_count = Inr 0,
       get_device_info_by_index = (\<lambda>i. Inl OSError),
       is_format_supported = (\<lambda>rate i. Inl ValueError),
       open_stream = (\<lambda>rate dev. None),
       start_stream = None, stop_stream = None, close_stream = None, terminate = None\<rparr>
      \<lparr>call_soon_threadsafe = None, create_task = None,
       emit_stream_end = None, sio_disconnect = None\<rparr>
      ((init 1024 False)\<lparr>is_connected := True, is_recording := True,
         audio_stream := Some \<lparr>stream_rate = 44100, stream_device = None,
           stream_frames_per_buffer = 512, stream_active = True\<rparr>,
         pyaudio_instance := Some PyAudio\<rparr>))) =
     [Did StopStream, Did CloseStream, Did PaTerminate, Did (Emit ''streamEnd''),
      Did SioDisconnect] \<and>
   [Did StopStream, Did CloseStream, Did PaTerminate, Did (Emit ''streamEnd''),
      Did SioDisconnect] \<noteq>
     [Did StopStream, Did (Emit ''streamEnd''), Did SioDisconnect, Did CloseStream,
      Did PaTerminate] \<and>
   fst (snd (disconnect
      \<lparr>pa_init = None, get_device_count = Inr 0,
       get_device_info_by_index = (\<lambda>i. Inl OSError),
       is_format_supported = (\<lambda>rate i. Inl ValueError),
       open_stream = (\<lambda>rate dev. None),
       start_stream = None, stop_stream = None, close_stream = Some OSError,
       terminate = None\<rparr>
      \<lparr>call_soon_threadsafe = None, create_task = None,
       emit_stream_end = None, sio_disconnect = None\<rparr>
      ((init 1024 False)\<lparr>is_connected := True, is_recording := True,
         audio_stream := Some \<lparr>stream_rate = 44100, stream_device = None,
           stream_frames_per_buffer = 512, stream_active = True\<rparr>,
         pyaudio_instance := Some PyAudio\<rparr>))) =
     [Did StopStream, Raised CloseStream OSError, Did SioDisconnect]"
  by (simp add: shutdown_defs init_def)

text \<open>
  Claim C4, amended. From a connected and recording client that holds its stream and its
  audio subsystem, the shutdown makes its calls in this order: stop the stream, close it,
  terminate the audio subsystem, emit \<open>streamEnd\<close>, disconnect the socket. The
  first four are made up to the first one that raises: the calls after it, up to
  \<open>streamEnd\<close>, are skipped and the exception is logged. The disconnection is attempted
  after them in every case. When all calls return, both resources are released; the
  client is no longer recording in every case.
\<close>

theorem shutdown_order:
  assumes "is_recording self" and "is_connected self"
    and "audio_stream self \<noteq> None" and "pyaudio_instance self \<noteq> None"
  shows "fst (snd (disconnect env tr self)) =
           until_failure
             [(StopStream, stop_stream env), (CloseStream, close_stream env),
              (PaTerminate, terminate env), (Emit ''streamEnd'', emit_stream_end tr)] @
           until_failure [(SioDisconnect, sio_disconnect tr)] \<and>
         (stop_stream env = None \<and> close_stream env = None \<and> terminate env = None \<and>
          emit_stream_end tr = None \<and> sio_disconnect tr = None \<longrightarrow>
            disconnect env tr self =
              (self\<lparr>is_recording := False, audio_stream := None, pyaudio_instance := None\<rparr>,
               [Did StopStream, Did CloseStream, Did PaTerminate, Did (Emit ''streamEnd''),
                Did SioDisconnect], None)) \<and>
         \<not> is_recording (fst (disconnect env tr self))"
proof (intro conjI impI)
  from assms show "fst (snd (disconnect env tr self)) =
           until_failure
             [(StopStream, stop_stream env), (CloseStream, close_stream env),
              (PaTerminate, terminate env), (Emit ''streamEnd'', emit_stream_end tr)] @
           until_failure [(SioDisconnect, sio_disconnect tr)]"
    by (cases "stop_stream env"; cases "close_stream env"; cases "terminate env";
        cases "emit_stream_end tr"; cases "sio_disconnect tr")
      (simp_all add: shutdown_defs)
next
  assume ok: "stop_stream env = None \<and> close_stream env = None \<and> terminate env = None \<and>
          emit_stream_end tr = None \<and> sio_disconnect tr = None"
  with assms show "disconnect env tr self =
      (self\<lparr>is_recording := False, audio_stream := None, pyaudio_instance := None\<rparr>,
       [Did StopStream, Did CloseStream, Did PaTerminate, Did (Emit ''streamEnd''),
        Did SioDisconnect], None)"
    by (simp add: shutdown_defs)
next
  from assms show "\<not> is_recording (fst (disconnect env tr self))"
    by (cases "stop_stream env"; cases "close_stream env"; cases "terminate env";
        cases "emit_stream_end tr"; cases "sio_disconnect tr")
      (simp_all add: shutdown_defs)
qed

theorem shutdown_order_witness:
  "fst (snd (disconnect
      \<lparr>pa_init = None, get_device_count = Inr 0,
       get_device_info_by_index = (\<lambda>i. Inl OSError),
       is_format_supported = (\<lambda>rate i. Inl ValueError),
       open_stream = (\<lambda>rate dev. None),
       start_stream = None, stop_stream = None, close_stream = None,
       terminate = Some OSError\<rparr>
      \<lparr>call_soon_threadsafe = None, create_task = None,
       emit_stream_end = None, sio_disconnect = None\<rparr>
      ((init 1024 False)\<lparr>is_connected := True, is_recording := True,
         audio_stream := Some \<lparr>stream_rate = 44100, stream_device = None,
           stream_frames_per_buffer = 512, stream_active = True\<rparr>,
         pyaudio_instance := Some PyAudio\<rparr>))) =
     [Did StopStream, Did CloseStream, Raised PaTerminate OSError, Did SioDisconnect]"
proof -
  let ?env = "\<lparr>pa_init = None, get_device_count = Inr 0,
       get_device_info_by_index = (\<lambda>i. Inl OSError),
       is_format_supported = (\<lambda>rate i. Inl ValueError),
       open_stream = (\<lambda>rate dev. None),
       start_stream = None, stop_stream = None, close_stream = None,
       terminate = Some OSError\<rparr>"
  let ?tr = "\<lparr>call_soon_threadsafe = None, create_task = None,
       emit_stream_end = None, sio_disconnect = None\<rparr>"
  let ?self = "(init 1024 False)\<lparr>is_connected := True, is_recording := True,
         audio_stream := Some \<lparr>stream_rate = 44100, stream_device = None,
           stream_frames_per_buffer = 512, stream_active = True\<rparr>,
         pyaudio_instance := Some PyAudio\<rparr>"
  have h: "is_recording ?self" "is_connected ?self" "audio_stream ?self \<noteq> None"
    "pyaudio_instance ?self \<noteq> None"
    by (simp_all add: init_def)
  from shutdown_order [OF h, of ?env ?tr] show ?thesis by simp
qed

section \<open>Properties of the device selector\<close>

lemma set_insert_desc: "set (insert_desc x ys) = insert x (set ys)"
  by (induction ys) auto

lemma set_foldl_insert_desc:
  "set (foldl (\<lambda>sorted x. insert_desc x sorted) acc xs) = set acc \<union> set xs"
  by (induction xs arbitrary: acc) (simp_all add: set_insert_desc)

lemma set_sort_desc: "set (sort_desc xs) = set xs"
  by (simp add: sort_desc_def set_foldl_insert_desc)

lemma in_map_filter: "d \<in> set (List.map_filter f xs) \<longleftrightarrow> (\<exists>i \<in> set xs. f i = Some d)"
  by (auto simp: List.map_filter_def image_iff)

lemma describe_device_index: "describe_device env i = Some d \<Longrightarrow> index d = i"
  by (auto simp: describe_device_def Let_def split: sum.splits if_splits)

lemma describe_device_rates:
  "describe_device env i = Some d \<Longrightarrow> supported_rates d \<noteq> [] \<and> set (supported_rates d) \<subseteq> set test_rates"
  by (auto simp: describe_device_def Let_def probe_rates_def split: sum.splits if_splits)

lemma best_rate_supported: "supported_rates d \<noteq> [] \<Longrightarrow> best_rate r d \<in> set (supported_rates d)"
  by (cases "supported_rates d") (auto simp: best_rate_def)

text \<open>
  Claim C9 says that device selection leaves the client as it was, the configured input
  sample rate in particular. With one input device that supports 48000 Hz only, the
  call changes the input sample rate from 44100 to 48000.
\<close>

theorem selection_counterexample:
  "input_sample_rate ((init 1024 False)\<lparr>pyaudio_instance := Some PyAudio\<rparr>) = 44100 \<and>
   find_best_microphone
     \<lparr>pa_init = None, get_device_count = Inr 1,
      get_device_info_by_index =
        (\<lambda>i. Inr \<lparr>name = ''Webcam'', maxInputChannels = 2, defaultSampleRate = 48000\<rparr>),
      is_format_supported = (\<lambda>rate i. if rate = 48000 then Inr True else Inl ValueError),
      open_stream = (\<lambda>rate dev. None),
      start_stream = None, stop_stream = None, close_stream = None, terminate = None\<rparr>
     ((init 1024 False)\<lparr>pyaudio_instance := Some PyAudio\<rparr>) =
   ((init 1024 False)\<lparr>pyaudio_instance := Some PyAudio, input_sample_rate := 48000\<rparr>, Some 0)"
  by (simp add: find_best_microphone_def init_def describe_device_def
      probe_rates_def test_rates_def sort_desc_def best_rate_def List.map_filter_def)

text \<open>
  Claim C9, amended. Device selection has one effect on the client beyond logging: when
  it selects a device, it sets the input sample rate to a rate that this device supports
  (44100 when supported, else 48000 when supported, else the first supported candidate).
  Every other field of the client is as before, the audio stream in particular (none is
  opened), and the client is unchanged altogether when no device is selected.
\<close>

theorem selection_effect:
  "(snd (find_best_microphone env self) = None \<longrightarrow> fst (find_best_microphone env self) = self) \<and>
   (\<forall>i. snd (find_best_microphone env self) = Some i \<longrightarrow>
      (\<exists>d. describe_device env i = Some d \<and>
         best_rate (input_sample_rate self) d \<in> set (supported_rates d) \<and>
         fst (find_best_microphone env self) =
           self\<lparr>input_sample_rate := best_rate (input_sample_rate self) d\<rparr>)) \<and>
   audio_stream (fst (find_best_microphone env self)) = audio_stream self"
proof (cases "pyaudio_instance self = None")
  case True
  then show ?thesis by (simp add: find_best_microphone_def)
next
  case pa: False
  show ?thesis
  proof (cases "get_device_count env")
    case (Inl e)
    with pa show ?thesis by (simp add: find_best_microphone_def)
  next
    case (Inr n)
    let ?devs = "List.map_filter (describe_device env) [0..<n]"
    show ?thesis
    proof (cases "sort_desc ?devs")
      case Nil
      with pa Inr show ?thesis by (simp add: find_best_microphone_def)
    next
      case (Cons best others)
      then have "best \<in> set (sort_desc ?devs)" by simp
      then have "best \<in> set ?devs" by (simp only: set_sort_desc)
      then obtain i where i: "describe_device env i = Some best"
        by (auto simp: in_map_filter)
      have idx: "index best = i" by (rule describe_device_index [OF i])
      have rate: "best_rate (input_sample_rate self) best \<in> set (supported_rates best)"
        using describe_device_rates [OF i] by (simp add: best_rate_supported)
      from pa Inr Cons have res: "find_best_microphone env self =
          (self\<lparr>input_sample_rate := best_rate (input_sample_rate self) best\<rparr>, Some i)"
        by (simp add: find_best_microphone_def idx)
      with i rate show ?thesis by simp
    qed
  qed
qed

theorem selection_effect_witness:
  "snd (find_best_microphone
     \<lparr>pa_init = None, get_device_count = Inr 0,
      get_device_info_by_index = (\<lambda>i. Inl OSError),
      is_format_supported = (\<lambda>rate i. Inl ValueError),
      open_stream = (\<lambda>rate dev. None),
      start_stream = None, stop_stream = None, close_stream = None, terminate = None\<rparr>
     ((init 1024 False)\<lparr>pyaudio_instance := Some PyAudio\<rparr>)) = None \<and>
   fst (find_best_microphone
     \<lparr>pa_init = None, get_device_count = Inr 0,
      get_device_info_by_index = (\<lambda>i. Inl OSError),
      is_format_supported = (\<lambda>rate i. Inl ValueError),
      open_stream = (\<lambda>rate dev. None),
      start_stream = None, stop_stream = None, close_stream = None, terminate = None\<rparr>
     ((init 1024 False)\<lparr>pyaudio_instance := Some PyAudio\<rparr>)) =
   (init 1024 False)\<lparr>pyaudio_instance := Some PyAudio\<rparr>"
proof -
  let ?env = "\<lparr>pa_init = None, get_device_count = Inr 0,
      get_device_info_by_index = (\<lambda>i. Inl OSError),
      is_format_supported = (\<lambda>rate i. Inl ValueError),
      open_stream = (\<lambda>rate dev. None),
      start_stream = None, stop_stream = None, close_stream = None, terminate = None\<rparr>"
  let ?self = "(init 1024 False)\<lparr>pyaudio_instance := Some PyAudio\<rparr>"
  have n: "snd (find_best_microphone ?env ?self) = None"
    by (simp add: find_best_microphone_def init_def sort_desc_def List.map_filter_def)
  from selection_effect [of ?env ?self] n show ?thesis by simp
qed

section \<open>Properties of the transport session\<close>

text \<open>
  Claim C7. For two configurations that differ only in the API key, \<open>connect\<close> builds
  the same URL, query string included, and the same namespaces, path and transports: the
  key is found in the handshake payload \<open>{token: apiKey}\<close> and nowhere else in the
  request.
\<close>

theorem api_key_only_in_auth:
  "connect_request_of fr (cfg\<lparr>apiKey := k\<rparr>) =
     (connect_request_of fr cfg)\<lparr>auth := [(''token'', k)]\<rparr> \<and>
   url (connect_request_of fr (cfg\<lparr>apiKey := k1\<rparr>)) =
     url (connect_request_of fr (cfg\<lparr>apiKey := k2\<rparr>)) \<and>
   auth (connect_request_of fr cfg) = [(''token'', apiKey cfg)] \<and>
   fst (snd (connect fr sio cfg self)) = connect_request_of fr cfg"
  by (simp add: connect_request_of_def connect_def Let_def)

lemma dict_set_fresh: "key \<notin> fst ` set d \<Longrightarrow> dict_set d key v = d @ [(key, v)]"
  by (induction d) auto

lemma foldl_dict_set:
  assumes "distinct (map fst opts)" and "fst ` set acc \<inter> fst ` set opts = {}"
  shows "foldl (\<lambda>query_params (key, v). dict_set query_params key (f key v)) acc opts =
           acc @ map (\<lambda>(key, v). (key, f key v)) opts"
  using assms
proof (induction opts arbitrary: acc)
  case Nil
  then show ?case by simp
next
  case (Cons kv opts)
  obtain key v where kv: "kv = (key, v)" by (cases kv)
  from Cons.prems kv have fresh: "key \<notin> fst ` set acc" by auto
  from Cons.prems kv have d: "distinct (map fst opts)" by simp
  from Cons.prems kv have "fst ` set (acc @ [(key, f key v)]) \<inter> fst ` set opts = {}"
    by (auto simp: image_iff)
  from Cons.IH [OF d this] show ?case
    by (simp add: kv dict_set_fresh [OF fresh])
qed

lemma build_query_params_map:
  "distinct (map fst opts) \<Longrightarrow>
   build_query_params fr opts = map (\<lambda>(key, v). (key, serialize_option fr key v)) opts"
  using foldl_dict_set [of opts "[]" "serialize_option fr"]
  by (simp add: build_query_params_def)

text \<open>
  Claim C8 says that every dictionary value is serialized as a JSON string. The code
  does so for the key \<open>tags\<close> only: a dictionary under another key gets its Python
  text, which differs from its JSON text (single quotes for double quotes).
\<close>

theorem serialization_counterexample:
  "build_query_params repr_integral [(''meta'', PDict [(''a'', PInt 1)])] =
     [(''meta'', [CHR ''{'', CHR 0x27, CHR ''a'', CHR 0x27, CHR '':'', CHR '' '', CHR ''1'', CHR ''}''])] \<and>
   json_dumps repr_integral (PDict [(''a'', PInt 1)]) =
     [CHR ''{'', CHR 0x22, CHR ''a'', CHR 0x22, CHR '':'', CHR '' '', CHR ''1'', CHR ''}''] \<and>
   [CHR ''{'', CHR 0x27, CHR ''a'', CHR 0x27, CHR '':'', CHR '' '', CHR ''1'', CHR ''}''] \<noteq>
     [CHR ''{'', CHR 0x22, CHR ''a'', CHR 0x22, CHR '':'', CHR '' '', CHR ''1'', CHR ''}'']"
  by (simp add: build_query_params_def serialize_option_def is_dict_def py_str_def
      repr_str_def repr_char_def json_str_def json_char_def str_int_def digits.simps
      Let_def char_of_def bit_0)

text \<open>
  Claim C8, amended. For every options dictionary, the query parameters built by
  \<open>connect\<close> keep the keys in their order and serialize each option by the shape of its
  value: a list becomes the comma-joined texts of its items, a dictionary under the key
  \<open>tags\<close> becomes its JSON text, and every other value (a dictionary under another key
  included) becomes its plain text; the URL is the server URL, \<open>/listen?\<close>, and these
  parameters URL-encoded.
\<close>

theorem option_serialization:
  assumes "distinct (map fst opts)"
  shows "build_query_params fr opts =
           map (\<lambda>(key, v). (key,
                  case v of
                    PList xs \<Rightarrow> join '','' (map (py_str fr) xs)
                  | PDict d \<Rightarrow> if key = ''tags'' then json_dumps fr v else py_str fr v
                  | _ \<Rightarrow> py_str fr v)) opts \<and>
         url (connect_request_of fr \<lparr>serverUrl = u, apiKey = k, sttOptions = Some opts\<rparr>) =
           u @ ''/listen?'' @ urlencode (build_query_params fr opts)"
proof
  have "serialize_option fr key v =
          (case v of
             PList xs \<Rightarrow> join '','' (map (py_str fr) xs)
           | PDict d \<Rightarrow> if key = ''tags'' then json_dumps fr v else py_str fr v
           | _ \<Rightarrow> py_str fr v)" for key v
    by (cases v) (simp_all add: serialize_option_def is_dict_def)
  then show "build_query_params fr opts =
           map (\<lambda>(key, v). (key,
                  case v of
                    PList xs \<Rightarrow> join '','' (map (py_str fr) xs)
                  | PDict d \<Rightarrow> if key = ''tags'' then json_dumps fr v else py_str fr v
                  | _ \<Rightarrow> py_str fr v)) opts"
    by (simp add: build_query_params_map [OF assms])
  show "url (connect_request_of fr \<lparr>serverUrl = u, apiKey = k, sttOptions = Some opts\<rparr>) =
           u @ ''/listen?'' @ urlencode (build_query_params fr opts)"
    by (simp add: connect_request_of_def Let_def)
qed

theorem option_serialization_witness:
  "distinct (map fst [(''language'', PStr ''es-MX''), (''translateTo'', PList [PStr ''en'', PStr ''fr'']),
      (''tags'', PDict [(''session'', PStr ''demo'')])]) \<and>
   build_query_params repr_integral
     [(''language'', PStr ''es-MX''), (''translateTo'', PList [PStr ''en'', PStr ''fr'']),
      (''tags'', PDict [(''session'', PStr ''demo'')])] =
     [(''language'', ''es-MX''), (''translateTo'', ''en,fr''),
      (''tags'', [CHR ''{'', CHR 0x22] @ ''session'' @ [CHR 0x22, CHR '':'', CHR '' '', CHR 0x22] @
                 ''demo'' @ [CHR 0x22, CHR ''}''])]"
proof -
  have d: "distinct (map fst [(''language'', PStr ''es-MX''),
      (''translateTo'', PList [PStr ''en'', PStr ''fr'']),
      (''tags'', PDict [(''session'', PStr ''demo'')])])"
    by simp
  from option_serialization [OF d, of repr_integral] d show ?thesis
    by (simp add: py_str_def json_str_def json_char_def)
qed

section \<open>Properties of the result presenter\<close>

lemma py_eq_str: "py_eq v (PStr s) \<longleftrightarrow> v = PStr s"
  by (cases v) (simp_all add: num_of_def)

text \<open>
  Claim C10. In a final (\<open>recognized\<close>) result, the confidence line and the duration
  line show the sentinel \<open>N/A\<close> exactly when the field is missing or its value is
  false in Python's sense (\<open>None\<close>, \<open>0\<close>, \<open>0.0\<close>, the empty string, ...): a field
  that is present and zero is printed as an absent one is. Any other value is printed
  as its text.
\<close>

theorem sentinel_for_falsy:
  assumes "map_of data ''status'' = Some (PStr ''recognized'')"
  shows "take 4 (fst (handle_speech_result fr data)) =
           [FinalResult (py_str fr (dict_get data ''messageId'' PNone)),
            Text (py_str fr (dict_get data ''text'' (PStr []))),
            Confidence (case map_of data ''confidence'' of
                          None \<Rightarrow> ''N/A''
                        | Some v \<Rightarrow> if truthy v then py_str fr v else ''N/A''),
            Duration (case map_of data ''duration'' of
                        None \<Rightarrow> ''N/A''
                      | Some v \<Rightarrow> if truthy v then py_str fr v else ''N/A'')]"
proof -
  have status: "dict_get data ''status'' PNone = PStr ''recognized''"
    using assms by (simp add: dict_get_def)
  have field: "py_str fr (py_or (dict_get data key PNone) (PStr ''N/A'')) =
      (case map_of data key of
         None \<Rightarrow> ''N/A''
       | Some v \<Rightarrow> if truthy v then py_str fr v else ''N/A'')" for key
    by (simp add: dict_get_def py_or_def py_str_def split: option.splits)
  obtain ps1 r1 where t: "translations_block fr data = (ps1, r1)"
    by (cases "translations_block fr data")
  obtain ps2 r2 where s: "sentiment_block fr data = (ps2, r2)"
    by (cases "sentiment_block fr data")
  show ?thesis
    by (cases r1; cases r2)
      (simp_all add: handle_speech_result_def Let_def status t s field [symmetric])
qed

theorem sentinel_for_falsy_witness:
  "map_of [(''status'', PStr ''recognized''), (''text'', PStr ''hola''),
           (''confidence'', PInt 0), (''duration'', PFloat 0)] ''status'' =
     Some (PStr ''recognized'') \<and>
   take 4 (fst (handle_speech_result repr_integral
      [(''status'', PStr ''recognized''), (''text'', PStr ''hola''),
       (''confidence'', PInt 0), (''duration'', PFloat 0)])) =
     [FinalResult ''None'', Text ''hola'', Confidence ''N/A'', Duration ''N/A'']"
proof -
  have h: "map_of [(''status'', PStr ''recognized''), (''text'', PStr ''hola''),
           (''confidence'', PInt 0), (''duration'', PFloat 0)] ''status'' =
     Some (PStr ''recognized'')"
    by simp
  from sentinel_for_falsy [OF h, of repr_integral] h show ?thesis
    by (simp add: dict_get_def py_str_def)
qed

end
